theory Spec2Isabelle
  imports Main
begin

section \<open>The response helper: data model\<close>

text \<open>
  The repository holds three generations of one Gin response helper:
  \<^item> the legacy helper (first file of \<^verbatim>\<open>src/unnamed/part_000\<close>, lines 1-271): nine
    methods, success responses stamped with \<^verbatim>\<open>time.Now()\<close>, \<^verbatim>\<open>InternalError\<close> logging
    the error; its definitions carry the suffix \<open>_legacy\<close>;
  \<^item> \<^verbatim>\<open>src/responsehelper.go\<close>: the same nine methods, every one reading the request's
    \<^verbatim>\<open>"meta"\<close> key; its definitions carry the plain source names;
  \<^item> the extended helper (second file of \<^verbatim>\<open>src/unnamed/part_000\<close>, lines 273-673):
    twelve methods (adds \<^verbatim>\<open>AlreadyExists\<close>, \<^verbatim>\<open>Conflict\<close>, \<^verbatim>\<open>Forbidden\<close>, \<^verbatim>\<open>NoContent\<close>);
    its definitions carry the suffix \<open>_ext\<close>.
\<close>

subsection \<open>Go values\<close>

text \<open>
  A value of Go's \<^verbatim>\<open>interface{}\<close> as far as the helper builds or passes one on:
  \<^verbatim>\<open>nil\<close>, a bool, an int, a string, a \<^verbatim>\<open>gin.H\<close> (that is a \<^verbatim>\<open>map[string]any\<close>) or a
  slice. A \<^verbatim>\<open>gin.H\<close> is a partial map from keys to values: a key bound to \<open>GoNil\<close> is
  present in the map (and rendered as JSON \<^verbatim>\<open>null\<close>), a key mapped to \<open>None\<close> is not
  in the map at all.
\<close>

datatype any = GoNil | GoBool bool | GoInt int | GoString string
  | GoMap "string \<Rightarrow> any option" | GoSlice "any list"

type_synonym H = "string \<rightharpoonup> any"

text \<open>
  A Go \<^verbatim>\<open>error\<close>: the nil interface (\<open>None\<close>) or an error whose \<^verbatim>\<open>Error()\<close> method
  returns the given text.
\<close>

type_synonym error = "string option"

datatype panic = NilPointerDereference

subsection \<open>The request context and the ambient state\<close>

text \<open>
  What the helper reads and writes: the request-scoped key/value store of the
  \<^verbatim>\<open>gin.Context\<close> (\<open>Keys\<close>), the responses written through \<^verbatim>\<open>c.JSON\<close> (status code and
  body, oldest first; the body is \<open>None\<close> when the response is sent without one), and
  the two pieces of process state the legacy helper touches:
  the wall clock, held as the text that \<^verbatim>\<open>time.Now().Format(time.RFC3339)\<close> yields at
  the moment of the call, and the messages handed to the standard logger.
\<close>

record Context =
  Keys :: "string \<rightharpoonup> any"
  written :: "(int \<times> H option) list"
  clock :: string
  logged :: "string list"

text \<open>
  A call either returns with the updated context or panics; a panic carries the
  context as it was when the panic was raised.
\<close>

type_synonym outcome = "(panic \<times> Context) + Context"

subsection \<open>Framework and library primitives\<close>

text \<open>The status constants of \<^verbatim>\<open>net/http\<close> that the helper names.\<close>

abbreviation StatusOK :: int where "StatusOK \<equiv> 200"
abbreviation StatusCreated :: int where "StatusCreated \<equiv> 201"
abbreviation StatusNoContent :: int where "StatusNoContent \<equiv> 204"
abbreviation StatusNotModified :: int where "StatusNotModified \<equiv> 304"
abbreviation StatusBadRequest :: int where "StatusBadRequest \<equiv> 400"
abbreviation StatusUnauthorized :: int where "StatusUnauthorized \<equiv> 401"
abbreviation StatusForbidden :: int where "StatusForbidden \<equiv> 403"
abbreviation StatusNotFound :: int where "StatusNotFound \<equiv> 404"
abbreviation StatusConflict :: int where "StatusConflict \<equiv> 409"
abbreviation StatusInternalServerError :: int where "StatusInternalServerError \<equiv> 500"

text \<open>
  \<^verbatim>\<open>c.Get(key)\<close> returns the value stored under the key and \<^verbatim>\<open>true\<close>, or
  \<^verbatim>\<open>(nil, false)\<close> when the key was never set.
\<close>

definition Get :: "Context \<Rightarrow> string \<Rightarrow> any \<times> bool" where
  "Get c key = (case Keys c key of Some v \<Rightarrow> (v, True) | None \<Rightarrow> (GoNil, False))"

text \<open>
  Gin's \<^verbatim>\<open>bodyAllowedForStatus\<close>: a response with a 1xx status, with 204 or with 304
  carries no body.
\<close>

definition bodyAllowedForStatus :: "int \<Rightarrow> bool" where
  "bodyAllowedForStatus status =
     (if 100 \<le> status \<and> status \<le> 199 then False
      else if status = StatusNoContent then False
      else if status = StatusNotModified then False
      else True)"

text \<open>
  \<^verbatim>\<open>c.JSON(code, obj)\<close> writes one response: it sets the status and, when the status
  allows a body, renders the object as the body; otherwise the response goes out with
  the status and no body, and the object is dropped. How the object is rendered into
  bytes is not modelled.
\<close>

definition JSON :: "int \<Rightarrow> H \<Rightarrow> Context \<Rightarrow> Context" where
  "JSON code obj c =
     c\<lparr>written := written c @ [(code, if bodyAllowedForStatus code then Some obj else None)]\<rparr>"

text \<open>
  \<^verbatim>\<open>err.Error()\<close>: the text of the error; a method call on the nil interface panics.
  The context is the one in force at the call, kept in the panic.
\<close>

definition Error :: "error \<Rightarrow> Context \<Rightarrow> (panic \<times> Context) + string" where
  "Error err c = (case err of None \<Rightarrow> Inl (NilPointerDereference, c) | Some s \<Rightarrow> Inr s)"

text \<open>
  \<^verbatim>\<open>log.Printf("Internal error: %v", err)\<close>: the verb \<^verbatim>\<open>%v\<close> prints a nil error as
  \<^verbatim>\<open><nil>\<close> and any other error as its text. The logger's own prefix and the
  trailing newline are left out of the recorded message.
\<close>

definition verb_v :: "error \<Rightarrow> string" where
  "verb_v err = (case err of None \<Rightarrow> ''<nil>'' | Some s \<Rightarrow> s)"

definition Printf :: "string \<Rightarrow> Context \<Rightarrow> Context" where
  "Printf line c = c\<lparr>logged := logged c @ [line]\<rparr>"

text \<open>\<^verbatim>\<open>time.Now().Format(time.RFC3339)\<close>: the current time as text.\<close>

definition Now_Format_RFC3339 :: "Context \<Rightarrow> string" where
  "Now_Format_RFC3339 c = clock c"

section \<open>The helper of responsehelper.go\<close>

definition BadRequest :: "Context \<Rightarrow> string \<Rightarrow> string \<Rightarrow> Context" where
  "BadRequest c message details =
     (case Get c ''meta'' of (meta, _) \<Rightarrow>
        JSON StatusBadRequest
          [''success'' \<mapsto> GoBool False,
           ''error'' \<mapsto> GoMap
             [''code'' \<mapsto> GoInt 400,
              ''status'' \<mapsto> GoString ''BAD_REQUEST'',
              ''message'' \<mapsto> GoString message,
              ''details'' \<mapsto> GoString details],
           ''meta'' \<mapsto> meta] c)"

definition NotFound :: "Context \<Rightarrow> string \<Rightarrow> Context" where
  "NotFound c message =
     (case Get c ''meta'' of (meta, _) \<Rightarrow>
        JSON StatusNotFound
          [''success'' \<mapsto> GoBool False,
           ''error'' \<mapsto> GoMap
             [''code'' \<mapsto> GoInt 404,
              ''status'' \<mapsto> GoString ''NOT_FOUND'',
              ''message'' \<mapsto> GoString message],
           ''meta'' \<mapsto> meta] c)"

definition Unauthorized :: "Context \<Rightarrow> string \<Rightarrow> Context" where
  "Unauthorized c message =
     (case Get c ''meta'' of (meta, _) \<Rightarrow>
        JSON StatusUnauthorized
          [''success'' \<mapsto> GoBool False,
           ''error'' \<mapsto> GoMap
             [''code'' \<mapsto> GoInt 401,
              ''status'' \<mapsto> GoString ''UNAUTHORIZED'',
              ''message'' \<mapsto> GoString message],
           ''meta'' \<mapsto> meta] c)"

definition InternalError :: "Context \<Rightarrow> string \<Rightarrow> error \<Rightarrow> outcome" where
  "InternalError c message err =
     (case Get c ''meta'' of (meta, _) \<Rightarrow>
        (case Error err c of
           Inl p \<Rightarrow> Inl p
         | Inr details \<Rightarrow> Inr (JSON StatusInternalServerError
             [''success'' \<mapsto> GoBool False,
              ''error'' \<mapsto> GoMap
                [''code'' \<mapsto> GoInt 500,
                 ''status'' \<mapsto> GoString ''INTERNAL_SERVER_ERROR'',
                 ''message'' \<mapsto> GoString message,
                 ''details'' \<mapsto> GoString details],
              ''data'' \<mapsto> GoNil,
              ''meta'' \<mapsto> meta] c)))"

definition Success :: "Context \<Rightarrow> any \<Rightarrow> Context" where
  "Success c data =
     (case Get c ''meta'' of (meta, _) \<Rightarrow>
        JSON StatusOK
          [''success'' \<mapsto> GoBool True,
           ''data'' \<mapsto> data,
           ''meta'' \<mapsto> meta] c)"

definition SuccessWithPagination :: "Context \<Rightarrow> any \<Rightarrow> any \<Rightarrow> Context" where
  "SuccessWithPagination c data paginationMeta =
     (case Get c ''meta'' of (meta, _) \<Rightarrow>
        JSON StatusOK
          [''success'' \<mapsto> GoBool True,
           ''data'' \<mapsto> data,
           ''pagination'' \<mapsto> paginationMeta,
           ''meta'' \<mapsto> meta] c)"

definition Created :: "Context \<Rightarrow> any \<Rightarrow> Context" where
  "Created c data =
     (case Get c ''meta'' of (meta, _) \<Rightarrow>
        JSON StatusCreated
          [''success'' \<mapsto> GoBool True,
           ''data'' \<mapsto> data,
           ''meta'' \<mapsto> meta] c)"

definition Deleted :: "Context \<Rightarrow> string \<Rightarrow> Context" where
  "Deleted c message =
     (case Get c ''meta'' of (meta, _) \<Rightarrow>
        JSON StatusOK
          [''success'' \<mapsto> GoBool True,
           ''message'' \<mapsto> GoString (message @ '' deleted successfully''),
           ''meta'' \<mapsto> meta] c)"

section \<open>The extended helper (twelve methods)\<close>

definition BadRequest_ext :: "Context \<Rightarrow> string \<Rightarrow> string \<Rightarrow> Context" where
  "BadRequest_ext c message details =
     (case Get c ''meta'' of (meta, _) \<Rightarrow>
        JSON StatusBadRequest
          [''success'' \<mapsto> GoBool False,
           ''error'' \<mapsto> GoMap
             [''code'' \<mapsto> GoInt 400,
              ''status'' \<mapsto> GoString ''BAD_REQUEST'',
              ''message'' \<mapsto> GoString message,
              ''details'' \<mapsto> GoString details],
           ''meta'' \<mapsto> meta] c)"

definition Conflict_ext :: "Context \<Rightarrow> string \<Rightarrow> error \<Rightarrow> outcome" where
  "Conflict_ext c message err =
     (case Get c ''meta'' of (meta, _) \<Rightarrow>
        (case Error err c of
           Inl p \<Rightarrow> Inl p
         | Inr details \<Rightarrow> Inr (JSON StatusConflict
             [''success'' \<mapsto> GoBool False,
              ''error'' \<mapsto> GoMap
                [''code'' \<mapsto> GoInt 409,
                 ''status'' \<mapsto> GoString ''CONFLICT'',
                 ''message'' \<mapsto> GoString message,
                 ''details'' \<mapsto> GoString details],
              ''meta'' \<mapsto> meta] c)))"

definition AlreadyExists_ext :: "Context \<Rightarrow> string \<Rightarrow> error \<Rightarrow> outcome" where
  "AlreadyExists_ext c resource err = Conflict_ext c (resource @ '' already exists'') err"

definition NotFound_ext :: "Context \<Rightarrow> string \<Rightarrow> Context" where
  "NotFound_ext c message =
     (case Get c ''meta'' of (meta, _) \<Rightarrow>
        JSON StatusNotFound
          [''success'' \<mapsto> GoBool False,
           ''error'' \<mapsto> GoMap
             [''code'' \<mapsto> GoInt 404,
              ''status'' \<mapsto> GoString ''NOT_FOUND'',
              ''message'' \<mapsto> GoString message],
           ''meta'' \<mapsto> meta] c)"

definition Unauthorized_ext :: "Context \<Rightarrow> string \<Rightarrow> Context" where
  "Unauthorized_ext c message =
     (case Get c ''meta'' of (meta, _) \<Rightarrow>
        JSON StatusUnauthorized
          [''success'' \<mapsto> GoBool False,
           ''error'' \<mapsto> GoMap
             [''code'' \<mapsto> GoInt 401,
              ''status'' \<mapsto> GoString ''UNAUTHORIZED'',
              ''message'' \<mapsto> GoString message],
           ''meta'' \<mapsto> meta] c)"

definition InternalError_ext :: "Context \<Rightarrow> string \<Rightarrow> error \<Rightarrow> outcome" where
  "InternalError_ext c message err =
     (case Get c ''meta'' of (meta, _) \<Rightarrow>
        (case Error err c of
           Inl p \<Rightarrow> Inl p
         | Inr details \<Rightarrow> Inr (JSON StatusInternalServerError
             [''success'' \<mapsto> GoBool False,
              ''error'' \<mapsto> GoMap
                [''code'' \<mapsto> GoInt 500,
                 ''status'' \<mapsto> GoString ''INTERNAL_SERVER_ERROR'',
                 ''message'' \<mapsto> GoString message,
                 ''details'' \<mapsto> GoString details],
              ''data'' \<mapsto> GoNil,
              ''meta'' \<mapsto> meta] c)))"

definition Success_ext :: "Context \<Rightarrow> any \<Rightarrow> Context" where
  "Success_ext c data =
     (case Get c ''meta'' of (meta, _) \<Rightarrow>
        JSON StatusOK
          [''success'' \<mapsto> GoBool True,
           ''data'' \<mapsto> data,
           ''meta'' \<mapsto> meta] c)"

definition SuccessWithPagination_ext :: "Context \<Rightarrow> any \<Rightarrow> any \<Rightarrow> Context" where
  "SuccessWithPagination_ext c data paginationMeta =
     (case Get c ''meta'' of (meta, _) \<Rightarrow>
        JSON StatusOK
          [''success'' \<mapsto> GoBool True,
           ''data'' \<mapsto> data,
           ''pagination'' \<mapsto> paginationMeta,
           ''meta'' \<mapsto> meta] c)"

definition Created_ext :: "Context \<Rightarrow> any \<Rightarrow> Context" where
  "Created_ext c data =
     (case Get c ''meta'' of (meta, _) \<Rightarrow>
        JSON StatusCreated
          [''success'' \<mapsto> GoBool True,
           ''data'' \<mapsto> data,
           ''meta'' \<mapsto> meta] c)"

definition Deleted_ext :: "Context \<Rightarrow> string \<Rightarrow> Context" where
  "Deleted_ext c message =
     (case Get c ''meta'' of (meta, _) \<Rightarrow>
        JSON StatusOK
          [''success'' \<mapsto> GoBool True,
           ''message'' \<mapsto> GoString (message @ '' deleted successfully''),
           ''meta'' \<mapsto> meta] c)"

definition Forbidden_ext :: "Context \<Rightarrow> string \<Rightarrow> Context" where
  "Forbidden_ext c message =
     (case Get c ''meta'' of (meta, _) \<Rightarrow>
        JSON StatusForbidden
          [''success'' \<mapsto> GoBool False,
           ''error'' \<mapsto> GoMap
             [''code'' \<mapsto> GoInt 403,
              ''status'' \<mapsto> GoString ''FORBIDDEN'',
              ''message'' \<mapsto> GoString message],
           ''meta'' \<mapsto> meta] c)"

text \<open>
  \<^verbatim>\<open>NoContent\<close> hands its envelope to \<^verbatim>\<open>c.JSON\<close> with status 204; with that status
  \<open>JSON\<close> sends no body.
\<close>

definition NoContent_ext :: "Context \<Rightarrow> Context" where
  "NoContent_ext c =
     (case Get c ''meta'' of (meta, _) \<Rightarrow>
        JSON StatusNoContent
          [''success'' \<mapsto> GoBool True,
           ''data'' \<mapsto> GoNil,
           ''meta'' \<mapsto> meta] c)"

section \<open>The legacy helper\<close>

text \<open>
  The legacy methods do not read the request's key/value store. \<^verbatim>\<open>Success\<close>,
  \<^verbatim>\<open>Created\<close> and \<^verbatim>\<open>Deleted\<close> put the current time under \<^verbatim>\<open>"meta"\<close>; the other
  methods write no \<^verbatim>\<open>"meta"\<close> key. \<^verbatim>\<open>InternalError\<close> logs the error before it builds
  the body, so a nil error is logged and then panics.
\<close>

definition BadRequest_legacy :: "Context \<Rightarrow> string \<Rightarrow> string \<Rightarrow> Context" where
  "BadRequest_legacy c message details =
     JSON StatusBadRequest
       [''success'' \<mapsto> GoBool False,
        ''error'' \<mapsto> GoMap
          [''code'' \<mapsto> GoInt 400,
           ''status'' \<mapsto> GoString ''BAD_REQUEST'',
           ''message'' \<mapsto> GoString message,
           ''details'' \<mapsto> GoString details]] c"

definition NotFound_legacy :: "Context \<Rightarrow> string \<Rightarrow> Context" where
  "NotFound_legacy c message =
     JSON StatusNotFound
       [''success'' \<mapsto> GoBool False,
        ''error'' \<mapsto> GoMap
          [''code'' \<mapsto> GoInt 404,
           ''status'' \<mapsto> GoString ''NOT_FOUND'',
           ''message'' \<mapsto> GoString message]] c"

definition Unauthorized_legacy :: "Context \<Rightarrow> string \<Rightarrow> Context" where
  "Unauthorized_legacy c message =
     JSON StatusUnauthorized
       [''success'' \<mapsto> GoBool False,
        ''error'' \<mapsto> GoMap
          [''code'' \<mapsto> GoInt 401,
           ''status'' \<mapsto> GoString ''UNAUTHORIZED'',
           ''message'' \<mapsto> GoString message]] c"

definition InternalError_legacy :: "Context \<Rightarrow> string \<Rightarrow> error \<Rightarrow> outcome" where
  "InternalError_legacy c message err =
     (let c1 = Printf (''Internal error: '' @ verb_v err) c in
        (case Error err c1 of
           Inl p \<Rightarrow> Inl p
         | Inr details \<Rightarrow> Inr (JSON StatusInternalServerError
             [''success'' \<mapsto> GoBool False,
              ''error'' \<mapsto> GoMap
                [''code'' \<mapsto> GoInt 500,
                 ''status'' \<mapsto> GoString ''INTERNAL_SERVER_ERROR'',
                 ''message'' \<mapsto> GoString message,
                 ''details'' \<mapsto> GoString details],
              ''data'' \<mapsto> GoNil] c1)))"

definition Success_legacy :: "Context \<Rightarrow> any \<Rightarrow> Context" where
  "Success_legacy c data =
     JSON StatusOK
       [''success'' \<mapsto> GoBool True,
        ''data'' \<mapsto> data,
        ''meta'' \<mapsto> GoString (Now_Format_RFC3339 c)] c"

definition SuccessWithPagination_legacy :: "Context \<Rightarrow> any \<Rightarrow> any \<Rightarrow> Context" where
  "SuccessWithPagination_legacy c data meta =
     JSON StatusOK
       [''success'' \<mapsto> GoBool True,
        ''data'' \<mapsto> data,
        ''pagination'' \<mapsto> meta] c"

definition Created_legacy :: "Context \<Rightarrow> any \<Rightarrow> Context" where
  "Created_legacy c data =
     JSON StatusCreated
       [''success'' \<mapsto> GoBool True,
        ''data'' \<mapsto> data,
        ''meta'' \<mapsto> GoString (Now_Format_RFC3339 c)] c"

definition Deleted_legacy :: "Context \<Rightarrow> string \<Rightarrow> Context" where
  "Deleted_legacy c message =
     JSON StatusOK
       [''success'' \<mapsto> GoBool True,
        ''message'' \<mapsto> GoString (message @ '' deleted successfully''),
        ''meta'' \<mapsto> GoString (Now_Format_RFC3339 c)] c"

section \<open>The interfaces as calls\<close>

text \<open>
  A call of a method of the \<^verbatim>\<open>ResponseHelper\<close> interface with its arguments, the
  context apart: the nine-method interface that the legacy helper and
  \<^verbatim>\<open>responsehelper.go\<close> implement, and the twelve-method interface of the extended
  helper. \<open>invoke\<close>, \<open>invoke_legacy\<close> and \<open>invoke_ext\<close> dispatch a call to the
  method of the generation.
\<close>

datatype call =
    Call_BadRequest string string
  | Call_NotFound string
  | Call_Unauthorized string
  | Call_InternalError string error
  | Call_Success any
  | Call_SuccessWithPagination any any
  | Call_Created any
  | Call_Deleted string

datatype call_ext =
    Ext_BadRequest string string
  | Ext_AlreadyExists string error
  | Ext_Conflict string error
  | Ext_NotFound string
  | Ext_Unauthorized string
  | Ext_Forbidden string
  | Ext_InternalError string error
  | Ext_Success any
  | Ext_SuccessWithPagination any any
  | Ext_Created any
  | Ext_Deleted string
  | Ext_NoContent

fun invoke :: "call \<Rightarrow> Context \<Rightarrow> outcome" where
  "invoke (Call_BadRequest message details) c = Inr (BadRequest c message details)"
| "invoke (Call_NotFound message) c = Inr (NotFound c message)"
| "invoke (Call_Unauthorized message) c = Inr (Unauthorized c message)"
| "invoke (Call_InternalError message err) c = InternalError c message err"
| "invoke (Call_Success data) c = Inr (Success c data)"
| "invoke (Call_SuccessWithPagination data meta) c = Inr (SuccessWithPagination c data meta)"
| "invoke (Call_Created data) c = Inr (Created c data)"
| "invoke (Call_Deleted message) c = Inr (Deleted c message)"

fun invoke_legacy :: "call \<Rightarrow> Context \<Rightarrow> outcome" where
  "invoke_legacy (Call_BadRequest message details) c = Inr (BadRequest_legacy c message details)"
| "invoke_legacy (Call_NotFound message) c = Inr (NotFound_legacy c message)"
| "invoke_legacy (Call_Unauthorized message) c = Inr (Unauthorized_legacy c message)"
| "invoke_legacy (Call_InternalError message err) c = InternalError_legacy c message err"
| "invoke_legacy (Call_Success data) c = Inr (Success_legacy c data)"
| "invoke_legacy (Call_SuccessWithPagination data meta) c =
     Inr (SuccessWithPagination_legacy c data meta)"
| "invoke_legacy (Call_Created data) c = Inr (Created_legacy c data)"
| "invoke_legacy (Call_Deleted message) c = Inr (Deleted_legacy c message)"

fun invoke_ext :: "call_ext \<Rightarrow> Context \<Rightarrow> outcome" where
  "invoke_ext (Ext_BadRequest message details) c = Inr (BadRequest_ext c message details)"
| "invoke_ext (Ext_AlreadyExists resource err) c = AlreadyExists_ext c resource err"
| "invoke_ext (Ext_Conflict message err) c = Conflict_ext c message err"
| "invoke_ext (Ext_NotFound message) c = Inr (NotFound_ext c message)"
| "invoke_ext (Ext_Unauthorized message) c = Inr (Unauthorized_ext c message)"
| "invoke_ext (Ext_Forbidden message) c = Inr (Forbidden_ext c message)"
| "invoke_ext (Ext_InternalError message err) c = InternalError_ext c message err"
| "invoke_ext (Ext_Success data) c = Inr (Success_ext c data)"
| "invoke_ext (Ext_SuccessWithPagination data meta) c =
     Inr (SuccessWithPagination_ext c data meta)"
| "invoke_ext (Ext_Created data) c = Inr (Created_ext c data)"
| "invoke_ext (Ext_Deleted message) c = Inr (Deleted_ext c message)"
| "invoke_ext Ext_NoContent c = Inr (NoContent_ext c)"

text \<open>The status codes of the 2xx family.\<close>

definition is_2xx :: "int \<Rightarrow> bool" where
  "is_2xx code \<longleftrightarrow> 200 \<le> code \<and> code < 300"

text \<open>
  \<open>wrote c c' code body\<close>: from \<open>c\<close> to \<open>c'\<close> exactly one response was written, with
  status \<open>code\<close> and the body \<open>body\<close> (\<open>None\<close>: sent without a body), and the request's
  key/value store is unchanged. \<open>responds c c' code obj\<close>: that response was sent with
  the body \<open>obj\<close>.
\<close>

definition wrote :: "Context \<Rightarrow> Context \<Rightarrow> int \<Rightarrow> H option \<Rightarrow> bool" where
  "wrote c c' code body \<longleftrightarrow> written c' = written c @ [(code, body)] \<and> Keys c' = Keys c"

definition responds :: "Context \<Rightarrow> Context \<Rightarrow> int \<Rightarrow> H \<Rightarrow> bool" where
  "responds c c' code obj \<longleftrightarrow> wrote c c' code (Some obj)"

section \<open>Classification of calls and fixtures\<close>

text \<open>
  The two families as the specification names them: the success family is
  \<^verbatim>\<open>Success\<close>, \<^verbatim>\<open>Created\<close>, \<^verbatim>\<open>SuccessWithPagination\<close>, \<^verbatim>\<open>Deleted\<close> and \<^verbatim>\<open>NoContent\<close>;
  the error family is \<^verbatim>\<open>BadRequest\<close>, \<^verbatim>\<open>Unauthorized\<close>, \<^verbatim>\<open>Forbidden\<close>, \<^verbatim>\<open>NotFound\<close>,
  \<^verbatim>\<open>Conflict\<close>, \<^verbatim>\<open>AlreadyExists\<close> and \<^verbatim>\<open>InternalError\<close>. These two functions follow
  the specification's list, not the code.
\<close>

fun spec_success_family :: "call \<Rightarrow> bool" where
  "spec_success_family (Call_Success _) = True"
| "spec_success_family (Call_Created _) = True"
| "spec_success_family (Call_SuccessWithPagination _ _) = True"
| "spec_success_family (Call_Deleted _) = True"
| "spec_success_family (Call_BadRequest _ _) = False"
| "spec_success_family (Call_Unauthorized _) = False"
| "spec_success_family (Call_NotFound _) = False"
| "spec_success_family (Call_InternalError _ _) = False"

fun spec_success_family_ext :: "call_ext \<Rightarrow> bool" where
  "spec_success_family_ext (Ext_Success _) = True"
| "spec_success_family_ext (Ext_Created _) = True"
| "spec_success_family_ext (Ext_SuccessWithPagination _ _) = True"
| "spec_success_family_ext (Ext_Deleted _) = True"
| "spec_success_family_ext Ext_NoContent = True"
| "spec_success_family_ext (Ext_BadRequest _ _) = False"
| "spec_success_family_ext (Ext_Unauthorized _) = False"
| "spec_success_family_ext (Ext_Forbidden _) = False"
| "spec_success_family_ext (Ext_NotFound _) = False"
| "spec_success_family_ext (Ext_Conflict _ _) = False"
| "spec_success_family_ext (Ext_AlreadyExists _ _) = False"
| "spec_success_family_ext (Ext_InternalError _ _) = False"

text \<open>A call that passes the nil error.\<close>

fun nil_error :: "call \<Rightarrow> bool" where
  "nil_error (Call_InternalError _ err) = (err = None)"
| "nil_error _ = False"

fun nil_error_ext :: "call_ext \<Rightarrow> bool" where
  "nil_error_ext (Ext_InternalError _ err) = (err = None)"
| "nil_error_ext (Ext_Conflict _ err) = (err = None)"
| "nil_error_ext (Ext_AlreadyExists _ err) = (err = None)"
| "nil_error_ext _ = False"

text \<open>
  The body of the response written last; the empty object when that response was sent
  without a body.
\<close>

definition last_body :: "Context \<Rightarrow> H" where
  "last_body c = (case snd (last (written c)) of Some obj \<Rightarrow> obj | None \<Rightarrow> Map.empty)"

text \<open>
  Request contexts for concrete runs: one whose \<^verbatim>\<open>"meta"\<close> key was set upstream,
  one in which no key was ever set, and the first of them one second later.
\<close>

definition seeded_context :: Context where
  "seeded_context = \<lparr>Keys = [''meta'' \<mapsto> GoString ''req-1''], written = [],
     clock = ''2023-01-01T00:00:00Z'', logged = []\<rparr>"

definition fresh_context :: Context where
  "fresh_context = \<lparr>Keys = Map.empty, written = [],
     clock = ''2023-01-01T00:00:00Z'', logged = []\<rparr>"

definition later_context :: Context where
  "later_context = seeded_context\<lparr>clock := ''2023-01-01T00:00:01Z''\<rparr>"

section \<open>Shared facts\<close>

lemmas rh_defs = BadRequest_def NotFound_def Unauthorized_def InternalError_def
  Success_def SuccessWithPagination_def Created_def Deleted_def

lemmas ext_defs = BadRequest_ext_def Conflict_ext_def AlreadyExists_ext_def NotFound_ext_def
  Unauthorized_ext_def Forbidden_ext_def InternalError_ext_def Success_ext_def
  SuccessWithPagination_ext_def Created_ext_def Deleted_ext_def NoContent_ext_def

lemmas legacy_defs = BadRequest_legacy_def NotFound_legacy_def Unauthorized_legacy_def
  InternalError_legacy_def Success_legacy_def SuccessWithPagination_legacy_def
  Created_legacy_def Deleted_legacy_def

lemmas prim_defs = Get_def JSON_def bodyAllowedForStatus_def Error_def Printf_def verb_v_def
  Now_Format_RFC3339_def

lemmas responds_defs = responds_def wrote_def

lemma dom3: "dom [a \<mapsto> x, b \<mapsto> y, d \<mapsto> z] = {a, b, d}"
  by auto

section \<open>The shape of single responses\<close>

text \<open>
  C6. For all message and details strings, \<^verbatim>\<open>BadRequest\<close> writes one response with
  status 400 whose body has \<^verbatim>\<open>success\<close> false and an error object with code 400,
  status \<^verbatim>\<open>"BAD_REQUEST"\<close>, and message and details equal to the two inputs. This holds
  for the method of \<^verbatim>\<open>responsehelper.go\<close>, of the extended helper and of the legacy
  helper.
\<close>

theorem BadRequest_envelope:
  "(\<exists>obj. responds c (BadRequest c message details) 400 obj
      \<and> obj ''success'' = Some (GoBool False)
      \<and> obj ''error'' = Some (GoMap [''code'' \<mapsto> GoInt 400,
           ''status'' \<mapsto> GoString ''BAD_REQUEST'',
           ''message'' \<mapsto> GoString message,
           ''details'' \<mapsto> GoString details]))
   \<and> (\<exists>obj. responds c (BadRequest_ext c message details) 400 obj
      \<and> obj ''success'' = Some (GoBool False)
      \<and> obj ''error'' = Some (GoMap [''code'' \<mapsto> GoInt 400,
           ''status'' \<mapsto> GoString ''BAD_REQUEST'',
           ''message'' \<mapsto> GoString message,
           ''details'' \<mapsto> GoString details]))
   \<and> (\<exists>obj. responds c (BadRequest_legacy c message details) 400 obj
      \<and> obj ''success'' = Some (GoBool False)
      \<and> obj ''error'' = Some (GoMap [''code'' \<mapsto> GoInt 400,
           ''status'' \<mapsto> GoString ''BAD_REQUEST'',
           ''message'' \<mapsto> GoString message,
           ''details'' \<mapsto> GoString details]))"
  by (simp add: BadRequest_def BadRequest_ext_def BadRequest_legacy_def Get_def JSON_def
        bodyAllowedForStatus_def responds_def wrote_def split: option.split)

text \<open>
  C7. For every noun, \<^verbatim>\<open>Deleted\<close> writes one response with status 200 whose body has
  \<^verbatim>\<open>success\<close> true and a \<^verbatim>\<open>message\<close> equal to the noun followed by
  \<^verbatim>\<open>" deleted successfully"\<close>, in all three generations; for the noun
  \<^verbatim>\<open>"qualification"\<close> the message is \<^verbatim>\<open>"qualification deleted successfully"\<close>.
\<close>

theorem Deleted_message:
  "(\<exists>obj. responds c (Deleted c noun) 200 obj
      \<and> obj ''success'' = Some (GoBool True)
      \<and> obj ''message'' = Some (GoString (noun @ '' deleted successfully'')))
   \<and> (\<exists>obj. responds c (Deleted_ext c noun) 200 obj
      \<and> obj ''success'' = Some (GoBool True)
      \<and> obj ''message'' = Some (GoString (noun @ '' deleted successfully'')))
   \<and> (\<exists>obj. responds c (Deleted_legacy c noun) 200 obj
      \<and> obj ''success'' = Some (GoBool True)
      \<and> obj ''message'' = Some (GoString (noun @ '' deleted successfully'')))
   \<and> (\<exists>obj. responds c (Deleted_ext c ''qualification'') 200 obj
      \<and> obj ''message'' = Some (GoString ''qualification deleted successfully''))"
  by (simp add: Deleted_def Deleted_ext_def Deleted_legacy_def Get_def JSON_def
        bodyAllowedForStatus_def responds_def wrote_def split: option.split)

text \<open>
  C4. For every message and every non-nil error, \<^verbatim>\<open>InternalError\<close> returns after
  writing one response with status 500 whose body has a top-level \<^verbatim>\<open>data\<close> key bound
  to null and an error object with code 500, status \<^verbatim>\<open>"INTERNAL_SERVER_ERROR"\<close>, the
  supplied message and, as details, the text of the error. The message is arbitrary.
  This holds in all three generations.
\<close>

theorem InternalError_envelope:
  "(\<exists>c' obj. InternalError c message (Some e) = Inr c' \<and> responds c c' 500 obj
      \<and> obj ''data'' = Some GoNil
      \<and> obj ''error'' = Some (GoMap [''code'' \<mapsto> GoInt 500,
           ''status'' \<mapsto> GoString ''INTERNAL_SERVER_ERROR'',
           ''message'' \<mapsto> GoString message,
           ''details'' \<mapsto> GoString e]))
   \<and> (\<exists>c' obj. InternalError_ext c message (Some e) = Inr c' \<and> responds c c' 500 obj
      \<and> obj ''data'' = Some GoNil
      \<and> obj ''error'' = Some (GoMap [''code'' \<mapsto> GoInt 500,
           ''status'' \<mapsto> GoString ''INTERNAL_SERVER_ERROR'',
           ''message'' \<mapsto> GoString message,
           ''details'' \<mapsto> GoString e]))
   \<and> (\<exists>c' obj. InternalError_legacy c message (Some e) = Inr c' \<and> responds c c' 500 obj
      \<and> obj ''data'' = Some GoNil
      \<and> obj ''error'' = Some (GoMap [''code'' \<mapsto> GoInt 500,
           ''status'' \<mapsto> GoString ''INTERNAL_SERVER_ERROR'',
           ''message'' \<mapsto> GoString message,
           ''details'' \<mapsto> GoString e]))"
  by (simp add: InternalError_def InternalError_ext_def InternalError_legacy_def
        Get_def JSON_def bodyAllowedForStatus_def Error_def Printf_def
        responds_def wrote_def split: option.split)

text \<open>
  C8. For every message, the error objects written by \<^verbatim>\<open>NotFound\<close>,
  \<^verbatim>\<open>Unauthorized\<close> and \<^verbatim>\<open>Forbidden\<close> have exactly the keys \<^verbatim>\<open>code\<close>, \<^verbatim>\<open>status\<close> and
  \<^verbatim>\<open>message\<close>; there is no \<^verbatim>\<open>details\<close> key. \<^verbatim>\<open>NotFound\<close> and \<^verbatim>\<open>Unauthorized\<close> exist
  in all three generations, \<^verbatim>\<open>Forbidden\<close> in the extended helper only.
\<close>

theorem no_details_in_NotFound_Unauthorized_Forbidden:
  "(\<exists>obj e. responds c (NotFound c message) 404 obj \<and> obj ''error'' = Some (GoMap e)
      \<and> dom e = {''code'', ''status'', ''message''} \<and> e ''details'' = None
      \<and> e ''code'' = Some (GoInt 404) \<and> e ''status'' = Some (GoString ''NOT_FOUND'')
      \<and> e ''message'' = Some (GoString message))
   \<and> (\<exists>obj e. responds c (NotFound_ext c message) 404 obj \<and> obj ''error'' = Some (GoMap e)
      \<and> dom e = {''code'', ''status'', ''message''} \<and> e ''details'' = None
      \<and> e ''code'' = Some (GoInt 404) \<and> e ''status'' = Some (GoString ''NOT_FOUND'')
      \<and> e ''message'' = Some (GoString message))
   \<and> (\<exists>obj e. responds c (NotFound_legacy c message) 404 obj \<and> obj ''error'' = Some (GoMap e)
      \<and> dom e = {''code'', ''status'', ''message''} \<and> e ''details'' = None
      \<and> e ''code'' = Some (GoInt 404) \<and> e ''status'' = Some (GoString ''NOT_FOUND'')
      \<and> e ''message'' = Some (GoString message))
   \<and> (\<exists>obj e. responds c (Unauthorized c message) 401 obj \<and> obj ''error'' = Some (GoMap e)
      \<and> dom e = {''code'', ''status'', ''message''} \<and> e ''details'' = None
      \<and> e ''code'' = Some (GoInt 401) \<and> e ''status'' = Some (GoString ''UNAUTHORIZED'')
      \<and> e ''message'' = Some (GoString message))
   \<and> (\<exists>obj e. responds c (Unauthorized_ext c message) 401 obj \<and> obj ''error'' = Some (GoMap e)
      \<and> dom e = {''code'', ''status'', ''message''} \<and> e ''details'' = None
      \<and> e ''code'' = Some (GoInt 401) \<and> e ''status'' = Some (GoString ''UNAUTHORIZED'')
      \<and> e ''message'' = Some (GoString message))
   \<and> (\<exists>obj e. responds c (Unauthorized_legacy c message) 401 obj \<and> obj ''error'' = Some (GoMap e)
      \<and> dom e = {''code'', ''status'', ''message''} \<and> e ''details'' = None
      \<and> e ''code'' = Some (GoInt 401) \<and> e ''status'' = Some (GoString ''UNAUTHORIZED'')
      \<and> e ''message'' = Some (GoString message))
   \<and> (\<exists>obj e. responds c (Forbidden_ext c message) 403 obj \<and> obj ''error'' = Some (GoMap e)
      \<and> dom e = {''code'', ''status'', ''message''} \<and> e ''details'' = None
      \<and> e ''code'' = Some (GoInt 403) \<and> e ''status'' = Some (GoString ''FORBIDDEN'')
      \<and> e ''message'' = Some (GoString message))"
  by (simp add: NotFound_def NotFound_ext_def NotFound_legacy_def Unauthorized_def
        Unauthorized_ext_def Unauthorized_legacy_def Forbidden_ext_def
        Get_def JSON_def bodyAllowedForStatus_def responds_def wrote_def dom3
        del: dom_fun_upd split: option.split)

section \<open>Conflict, AlreadyExists and the supplied error\<close>

text \<open>
  C2. For every context, resource and error, \<^verbatim>\<open>AlreadyExists(c, r, err)\<close> has the
  outcome of \<^verbatim>\<open>Conflict(c, r + " already exists", err)\<close>; with a non-nil error both
  return the same context, in which one response was written, with status 409 and
  one and the same body, so that any serialisation of the two bodies yields the same
  bytes. The last conjunct is the instance for the resource \<^verbatim>\<open>"User"\<close>.
\<close>

theorem AlreadyExists_is_Conflict:
  "AlreadyExists_ext c resource err = Conflict_ext c (resource @ '' already exists'') err
   \<and> (\<exists>c' obj. AlreadyExists_ext c resource (Some e) = Inr c'
        \<and> Conflict_ext c (resource @ '' already exists'') (Some e) = Inr c'
        \<and> responds c c' 409 obj
        \<and> obj ''error'' = Some (GoMap [''code'' \<mapsto> GoInt 409,
             ''status'' \<mapsto> GoString ''CONFLICT'',
             ''message'' \<mapsto> GoString (resource @ '' already exists''),
             ''details'' \<mapsto> GoString e]))
   \<and> (\<exists>c' obj. AlreadyExists_ext c ''User'' (Some e) = Inr c'
        \<and> Conflict_ext c ''User already exists'' (Some e) = Inr c'
        \<and> responds c c' 409 obj)"
  by (simp add: AlreadyExists_ext_def Conflict_ext_def Get_def JSON_def
        bodyAllowedForStatus_def Error_def
        responds_def wrote_def split: option.split)

text \<open>
  C9. \<^verbatim>\<open>InternalError\<close>, \<^verbatim>\<open>Conflict\<close> and \<^verbatim>\<open>AlreadyExists\<close> take the text of the
  supplied error with no nil check. With a non-nil error every call returns, having
  written one response whose error object has the error's text as details. With a nil
  error no branch handles the case: the call panics on the nil dereference and no
  response is written (the legacy \<^verbatim>\<open>InternalError\<close> has logged the nil error by then).
\<close>

theorem error_text_dereferenced:
  "(\<exists>c' obj e. InternalError c message (Some text) = Inr c' \<and> responds c c' 500 obj
       \<and> obj ''error'' = Some (GoMap e) \<and> e ''details'' = Some (GoString text))
   \<and> (\<exists>c' obj e. InternalError_ext c message (Some text) = Inr c' \<and> responds c c' 500 obj
       \<and> obj ''error'' = Some (GoMap e) \<and> e ''details'' = Some (GoString text))
   \<and> (\<exists>c' obj e. InternalError_legacy c message (Some text) = Inr c' \<and> responds c c' 500 obj
       \<and> obj ''error'' = Some (GoMap e) \<and> e ''details'' = Some (GoString text))
   \<and> (\<exists>c' obj e. Conflict_ext c message (Some text) = Inr c' \<and> responds c c' 409 obj
       \<and> obj ''error'' = Some (GoMap e) \<and> e ''details'' = Some (GoString text))
   \<and> (\<exists>c' obj e. AlreadyExists_ext c resource (Some text) = Inr c' \<and> responds c c' 409 obj
       \<and> obj ''error'' = Some (GoMap e) \<and> e ''details'' = Some (GoString text))
   \<and> InternalError c message None = Inl (NilPointerDereference, c)
   \<and> InternalError_ext c message None = Inl (NilPointerDereference, c)
   \<and> InternalError_legacy c message None
        = Inl (NilPointerDereference, c\<lparr>logged := logged c @ [''Internal error: <nil>'']\<rparr>)
   \<and> Conflict_ext c message None = Inl (NilPointerDereference, c)
   \<and> AlreadyExists_ext c resource None = Inl (NilPointerDereference, c)"
  by (simp add: InternalError_def InternalError_ext_def InternalError_legacy_def
        Conflict_ext_def AlreadyExists_ext_def verb_v_def
        Get_def JSON_def bodyAllowedForStatus_def Error_def Printf_def
        responds_def wrote_def split: option.split)

section \<open>The success flag and the status\<close>

lemma success_rh:
  assumes "\<not> nil_error k"
  shows "\<exists>c' code obj. invoke k c = Inr c' \<and> responds c c' code obj
      \<and> obj ''success'' = Some (GoBool (is_2xx code)) \<and> is_2xx code = spec_success_family k"
  using assms
  by (cases k)
     (clarsimp simp: rh_defs prim_defs responds_defs is_2xx_def split: option.splits)+

lemma success_legacy:
  assumes "\<not> nil_error k"
  shows "\<exists>c' code obj. invoke_legacy k c = Inr c' \<and> responds c c' code obj
      \<and> obj ''success'' = Some (GoBool (is_2xx code)) \<and> is_2xx code = spec_success_family k"
  using assms
  by (cases k)
     (clarsimp simp: legacy_defs prim_defs responds_defs is_2xx_def split: option.splits)+

lemma success_ext:
  assumes "\<not> nil_error_ext k" "k \<noteq> Ext_NoContent"
  shows "\<exists>c' code obj. invoke_ext k c = Inr c' \<and> responds c c' code obj
      \<and> obj ''success'' = Some (GoBool (is_2xx code))
      \<and> is_2xx code = spec_success_family_ext k"
  using assms
  by (cases k)
     (clarsimp simp: ext_defs prim_defs responds_defs is_2xx_def split: option.splits)+

text \<open>
  C3. The property: every operation writes an envelope whose \<^verbatim>\<open>success\<close> field is true
  exactly when the status it writes is a 2xx code, \<^verbatim>\<open>NoContent\<close> among those that set it
  to true. The three lemmas above show it for every operation but \<^verbatim>\<open>NoContent\<close>. For
  \<^verbatim>\<open>NoContent\<close> it fails: the method hands the envelope with \<^verbatim>\<open>success\<close> true, \<^verbatim>\<open>data\<close>
  null and \<^verbatim>\<open>meta\<close> to \<^verbatim>\<open>c.JSON\<close> with status 204, a status with which no body is sent,
  so the one response it writes has the status 204 and no envelope at all, in any
  context; the interface comment of \<^verbatim>\<open>NoContent\<close> gives that envelope as the response
  body.
\<close>

theorem NoContent_sends_no_body:
  "invoke_ext Ext_NoContent c = Inr (NoContent_ext c)
   \<and> wrote c (NoContent_ext c) 204 None
   \<and> written (NoContent_ext seeded_context) = [(204, None)]"
  by (simp add: NoContent_ext_def prim_defs wrote_def seeded_context_def split: option.split)

section \<open>Population of data and error\<close>

lemma shape_rh:
  assumes "\<not> nil_error k"
  shows "\<exists>c' code obj. invoke k c = Inr c' \<and> responds c c' code obj
      \<and> (case k of
            Call_InternalError _ _ \<Rightarrow> obj ''data'' = Some GoNil \<and> obj ''error'' \<noteq> None
          | Call_Deleted _ \<Rightarrow> obj ''data'' = None \<and> obj ''error'' = None
          | _ \<Rightarrow> (obj ''data'' = None) \<noteq> (obj ''error'' = None))
      \<and> \<not> (is_2xx code \<and> obj ''error'' \<noteq> None)"
  using assms
  by (cases k)
     (clarsimp simp: rh_defs prim_defs responds_defs is_2xx_def split: option.splits)+

lemma shape_legacy:
  assumes "\<not> nil_error k"
  shows "\<exists>c' code obj. invoke_legacy k c = Inr c' \<and> responds c c' code obj
      \<and> (case k of
            Call_InternalError _ _ \<Rightarrow> obj ''data'' = Some GoNil \<and> obj ''error'' \<noteq> None
          | Call_Deleted _ \<Rightarrow> obj ''data'' = None \<and> obj ''error'' = None
          | _ \<Rightarrow> (obj ''data'' = None) \<noteq> (obj ''error'' = None))
      \<and> \<not> (is_2xx code \<and> obj ''error'' \<noteq> None)"
  using assms
  by (cases k)
     (clarsimp simp: legacy_defs prim_defs responds_defs is_2xx_def split: option.splits)+

lemma shape_ext:
  assumes "\<not> nil_error_ext k" "k \<noteq> Ext_NoContent"
  shows "\<exists>c' code obj. invoke_ext k c = Inr c' \<and> responds c c' code obj
      \<and> (case k of
            Ext_InternalError _ _ \<Rightarrow> obj ''data'' = Some GoNil \<and> obj ''error'' \<noteq> None
          | Ext_Deleted _ \<Rightarrow> obj ''data'' = None \<and> obj ''error'' = None
          | _ \<Rightarrow> (obj ''data'' = None) \<noteq> (obj ''error'' = None))
      \<and> \<not> (is_2xx code \<and> obj ''error'' \<noteq> None)"
  using assms
  by (cases k)
     (clarsimp simp: ext_defs prim_defs responds_defs is_2xx_def split: option.splits)+

lemma no_error_with_2xx_ext:
  assumes "\<not> nil_error_ext k"
  shows "\<exists>c' code body. invoke_ext k c = Inr c' \<and> wrote c c' code body
      \<and> \<not> (is_2xx code \<and> (\<exists>obj. body = Some obj \<and> obj ''error'' \<noteq> None))"
  using assms
  by (cases k)
     (clarsimp simp: ext_defs prim_defs wrote_def is_2xx_def split: option.splits)+

text \<open>
  C5, as stated, fails: the body that \<^verbatim>\<open>Deleted\<close> writes has neither a \<^verbatim>\<open>data\<close> nor an
  \<^verbatim>\<open>error\<close> key (it carries \<^verbatim>\<open>message\<close> instead), so it does not populate exactly one
  of the two. Here for \<^verbatim>\<open>Deleted(c, "qualification")\<close> of the extended helper.
\<close>

theorem Deleted_has_neither_data_nor_error:
  "written (Deleted_ext seeded_context ''qualification'')
     = [(200, Some (last_body (Deleted_ext seeded_context ''qualification'')))]
   \<and> last_body (Deleted_ext seeded_context ''qualification'') ''data'' = None
   \<and> last_body (Deleted_ext seeded_context ''qualification'') ''error'' = None"
  by (simp add: Deleted_ext_def prim_defs last_body_def seeded_context_def)

text \<open>
  C5, amended. A field counts as populated when its key is in the body, also when it
  is bound to null. Every call that passes no nil error, \<^verbatim>\<open>NoContent\<close> apart, returns and
  has written one response with a body in which
  \<^item> \<^verbatim>\<open>InternalError\<close> populates both \<^verbatim>\<open>data\<close> and \<^verbatim>\<open>error\<close>, with \<^verbatim>\<open>data\<close> null;
  \<^item> \<^verbatim>\<open>Deleted\<close> populates neither;
  \<^item> every other operation populates exactly one of the two;
  and that body has no error object when the status is a 2xx code. The first three
  conjuncts are \<^verbatim>\<open>responsehelper.go\<close>, the legacy helper and the extended helper. The
  fourth covers every call of the extended helper, \<^verbatim>\<open>NoContent\<close> included: the one
  response it writes never combines a 2xx status with a body that has an error
  object. Which body \<^verbatim>\<open>NoContent\<close> sends is left open here.
\<close>

theorem data_error_population:
  "(\<not> nil_error k \<longrightarrow> (\<exists>c1 code obj. invoke k c = Inr c1 \<and> responds c c1 code obj
       \<and> (case k of
             Call_InternalError _ _ \<Rightarrow> obj ''data'' = Some GoNil \<and> obj ''error'' \<noteq> None
           | Call_Deleted _ \<Rightarrow> obj ''data'' = None \<and> obj ''error'' = None
           | _ \<Rightarrow> (obj ''data'' = None) \<noteq> (obj ''error'' = None))
       \<and> \<not> (is_2xx code \<and> obj ''error'' \<noteq> None)))
   \<and> (\<not> nil_error k \<longrightarrow> (\<exists>c2 code obj. invoke_legacy k c = Inr c2 \<and> responds c c2 code obj
       \<and> (case k of
             Call_InternalError _ _ \<Rightarrow> obj ''data'' = Some GoNil \<and> obj ''error'' \<noteq> None
           | Call_Deleted _ \<Rightarrow> obj ''data'' = None \<and> obj ''error'' = None
           | _ \<Rightarrow> (obj ''data'' = None) \<noteq> (obj ''error'' = None))
       \<and> \<not> (is_2xx code \<and> obj ''error'' \<noteq> None)))
   \<and> (\<not> nil_error_ext x \<and> x \<noteq> Ext_NoContent
       \<longrightarrow> (\<exists>c3 code obj. invoke_ext x c = Inr c3 \<and> responds c c3 code obj
       \<and> (case x of
             Ext_InternalError _ _ \<Rightarrow> obj ''data'' = Some GoNil \<and> obj ''error'' \<noteq> None
           | Ext_Deleted _ \<Rightarrow> obj ''data'' = None \<and> obj ''error'' = None
           | _ \<Rightarrow> (obj ''data'' = None) \<noteq> (obj ''error'' = None))
       \<and> \<not> (is_2xx code \<and> obj ''error'' \<noteq> None)))
   \<and> (\<not> nil_error_ext x \<longrightarrow> (\<exists>c4 code body. invoke_ext x c = Inr c4 \<and> wrote c c4 code body
       \<and> \<not> (is_2xx code \<and> (\<exists>obj. body = Some obj \<and> obj ''error'' \<noteq> None))))"
  using shape_rh [of k c] shape_legacy [of k c] shape_ext [of x c] no_error_with_2xx_ext [of x c]
  by blast

theorem data_error_population_witness:
  "\<not> nil_error (Call_InternalError ''boom'' (Some ''disk full''))
   \<and> (\<exists>c1 code obj. invoke (Call_InternalError ''boom'' (Some ''disk full'')) seeded_context
         = Inr c1 \<and> responds seeded_context c1 code obj
       \<and> obj ''data'' = Some GoNil \<and> obj ''error'' \<noteq> None
       \<and> \<not> (is_2xx code \<and> obj ''error'' \<noteq> None))
   \<and> \<not> nil_error (Call_Deleted ''qualification'')
   \<and> (\<exists>c2 code obj. invoke_legacy (Call_Deleted ''qualification'') seeded_context = Inr c2
       \<and> responds seeded_context c2 code obj
       \<and> obj ''data'' = None \<and> obj ''error'' = None
       \<and> \<not> (is_2xx code \<and> obj ''error'' \<noteq> None))
   \<and> \<not> nil_error_ext (Ext_AlreadyExists ''User'' (Some ''duplicate key''))
   \<and> Ext_AlreadyExists ''User'' (Some ''duplicate key'') \<noteq> Ext_NoContent
   \<and> (\<exists>c3 code obj. invoke_ext (Ext_AlreadyExists ''User'' (Some ''duplicate key''))
         seeded_context = Inr c3 \<and> responds seeded_context c3 code obj
       \<and> (obj ''data'' = None) \<noteq> (obj ''error'' = None)
       \<and> \<not> (is_2xx code \<and> obj ''error'' \<noteq> None))
   \<and> \<not> nil_error_ext Ext_NoContent
   \<and> (\<exists>c4 code body. invoke_ext Ext_NoContent seeded_context = Inr c4
       \<and> wrote seeded_context c4 code body
       \<and> \<not> (is_2xx code \<and> (\<exists>obj. body = Some obj \<and> obj ''error'' \<noteq> None)))"
proof -
  have n1: "\<not> nil_error (Call_InternalError ''boom'' (Some ''disk full''))" by simp
  have n2: "\<not> nil_error (Call_Deleted ''qualification'')" by simp
  have n3: "\<not> nil_error_ext (Ext_AlreadyExists ''User'' (Some ''duplicate key''))" by simp
  have n4: "Ext_AlreadyExists ''User'' (Some ''duplicate key'') \<noteq> Ext_NoContent" by simp
  have n5: "\<not> nil_error_ext Ext_NoContent" by simp
  have t1: "\<exists>c1 code obj. invoke (Call_InternalError ''boom'' (Some ''disk full''))
         seeded_context = Inr c1 \<and> responds seeded_context c1 code obj
       \<and> obj ''data'' = Some GoNil \<and> obj ''error'' \<noteq> None
       \<and> \<not> (is_2xx code \<and> obj ''error'' \<noteq> None)"
    using data_error_population [where k = "Call_InternalError ''boom'' (Some ''disk full'')"
      and c = seeded_context] n1 by simp
  have t2: "\<exists>c2 code obj. invoke_legacy (Call_Deleted ''qualification'') seeded_context
         = Inr c2 \<and> responds seeded_context c2 code obj
       \<and> obj ''data'' = None \<and> obj ''error'' = None
       \<and> \<not> (is_2xx code \<and> obj ''error'' \<noteq> None)"
    using data_error_population [where k = "Call_Deleted ''qualification''"
      and c = seeded_context] n2 by simp
  have t3: "\<exists>c3 code obj. invoke_ext (Ext_AlreadyExists ''User'' (Some ''duplicate key''))
         seeded_context = Inr c3 \<and> responds seeded_context c3 code obj
       \<and> (obj ''data'' = None) \<noteq> (obj ''error'' = None)
       \<and> \<not> (is_2xx code \<and> obj ''error'' \<noteq> None)"
    using data_error_population [where x = "Ext_AlreadyExists ''User'' (Some ''duplicate key'')"
      and c = seeded_context] n3 n4 by simp
  have t4: "\<exists>c4 code body. invoke_ext Ext_NoContent seeded_context = Inr c4
       \<and> wrote seeded_context c4 code body
       \<and> \<not> (is_2xx code \<and> (\<exists>obj. body = Some obj \<and> obj ''error'' \<noteq> None))"
    using data_error_population [where x = Ext_NoContent and c = seeded_context] n5
    by simp
  show ?thesis using n1 n2 n3 n4 n5 t1 t2 t3 t4 by (intro conjI)
qed

section \<open>The ambient meta value\<close>

lemma meta_rh:
  assumes "\<not> nil_error k"
  shows "\<exists>c' code obj. invoke k c = Inr c' \<and> responds c c' code obj
      \<and> obj ''meta'' = Some (case Keys c ''meta'' of Some v \<Rightarrow> v | None \<Rightarrow> GoNil)"
  using assms
  by (cases k) (clarsimp simp: rh_defs prim_defs responds_defs split: option.splits)+

lemma meta_ext:
  assumes "\<not> nil_error_ext k" "k \<noteq> Ext_NoContent"
  shows "\<exists>c' code obj. invoke_ext k c = Inr c' \<and> responds c c' code obj
      \<and> obj ''meta'' = Some (case Keys c ''meta'' of Some v \<Rightarrow> v | None \<Rightarrow> GoNil)"
  using assms
  by (cases k) (clarsimp simp: ext_defs prim_defs responds_defs split: option.splits)+

lemma meta_legacy:
  assumes "\<not> nil_error k"
  shows "\<exists>c' code obj. invoke_legacy k c = Inr c' \<and> responds c c' code obj
      \<and> obj ''meta'' = (case k of
            Call_Success _ \<Rightarrow> Some (GoString (clock c))
          | Call_Created _ \<Rightarrow> Some (GoString (clock c))
          | Call_Deleted _ \<Rightarrow> Some (GoString (clock c))
          | _ \<Rightarrow> None)"
  using assms
  by (cases k) (clarsimp simp: legacy_defs prim_defs responds_defs split: option.splits)+

text \<open>
  C1, as stated, fails. In a context where no \<^verbatim>\<open>"meta"\<close> key was ever set, \<^verbatim>\<open>Success\<close> of
  the extended helper writes a body in which the \<^verbatim>\<open>meta\<close> key is present, bound to
  null: the field is not absent. In the legacy helper the field does not follow the
  request's key at all: with \<^verbatim>\<open>"req-1"\<close> stored under \<^verbatim>\<open>"meta"\<close>, \<^verbatim>\<open>Success\<close> writes the
  current time as \<^verbatim>\<open>meta\<close> and \<^verbatim>\<open>BadRequest\<close> writes no \<^verbatim>\<open>meta\<close> key.
\<close>

theorem meta_null_not_absent:
  "Keys fresh_context ''meta'' = None
   \<and> written (Success_ext fresh_context (GoInt 7))
       = [(200, Some (last_body (Success_ext fresh_context (GoInt 7))))]
   \<and> last_body (Success_ext fresh_context (GoInt 7)) ''meta'' = Some GoNil
   \<and> Keys seeded_context ''meta'' = Some (GoString ''req-1'')
   \<and> written (Success_legacy seeded_context (GoInt 7))
       = [(200, Some (last_body (Success_legacy seeded_context (GoInt 7))))]
   \<and> last_body (Success_legacy seeded_context (GoInt 7)) ''meta''
       = Some (GoString ''2023-01-01T00:00:00Z'')
   \<and> written (BadRequest_legacy seeded_context ''Invalid input'' ''name is required'')
       = [(400, Some (last_body
            (BadRequest_legacy seeded_context ''Invalid input'' ''name is required'')))]
   \<and> last_body (BadRequest_legacy seeded_context ''Invalid input'' ''name is required'')
         ''meta'' = None"
  by (simp add: Success_ext_def Success_legacy_def BadRequest_legacy_def prim_defs
        last_body_def fresh_context_def seeded_context_def)

text \<open>
  C1, amended. In \<^verbatim>\<open>responsehelper.go\<close> and in the extended helper every call that
  passes no nil error, \<^verbatim>\<open>NoContent\<close> apart, returns and has written one response whose
  body always has the \<^verbatim>\<open>meta\<close> key: it is bound to the value stored under the request's
  \<^verbatim>\<open>"meta"\<close> key at the time of the call, and to null when no value is stored there. In
  the legacy helper every such call returns and has written one response in whose
  body \<^verbatim>\<open>Success\<close>, \<^verbatim>\<open>Created\<close> and \<^verbatim>\<open>Deleted\<close> bind \<^verbatim>\<open>meta\<close> to the current time and
  the other operations have no \<^verbatim>\<open>meta\<close> key. What \<^verbatim>\<open>NoContent\<close> sends is left open
  here.
\<close>

theorem meta_passed_through:
  "(\<not> nil_error k \<longrightarrow> (\<exists>c1 code obj. invoke k c = Inr c1 \<and> responds c c1 code obj
       \<and> obj ''meta'' = Some (case Keys c ''meta'' of Some v \<Rightarrow> v | None \<Rightarrow> GoNil)))
   \<and> (\<not> nil_error_ext x \<and> x \<noteq> Ext_NoContent
       \<longrightarrow> (\<exists>c2 code obj. invoke_ext x c = Inr c2 \<and> responds c c2 code obj
       \<and> obj ''meta'' = Some (case Keys c ''meta'' of Some v \<Rightarrow> v | None \<Rightarrow> GoNil)))
   \<and> (\<not> nil_error k \<longrightarrow> (\<exists>c3 code obj. invoke_legacy k c = Inr c3 \<and> responds c c3 code obj
       \<and> obj ''meta'' = (case k of
             Call_Success _ \<Rightarrow> Some (GoString (clock c))
           | Call_Created _ \<Rightarrow> Some (GoString (clock c))
           | Call_Deleted _ \<Rightarrow> Some (GoString (clock c))
           | _ \<Rightarrow> None)))"
  using meta_rh [of k c] meta_ext [of x c] meta_legacy [of k c] by blast

theorem meta_passed_through_witness:
  "\<not> nil_error (Call_InternalError ''boom'' (Some ''disk full''))
   \<and> (\<exists>c1 code obj. invoke (Call_InternalError ''boom'' (Some ''disk full'')) seeded_context
         = Inr c1 \<and> responds seeded_context c1 code obj
       \<and> obj ''meta'' = Some (GoString ''req-1''))
   \<and> \<not> nil_error_ext (Ext_Conflict ''Resource conflict'' (Some ''duplicate key''))
   \<and> Ext_Conflict ''Resource conflict'' (Some ''duplicate key'') \<noteq> Ext_NoContent
   \<and> (\<exists>c2 code obj. invoke_ext (Ext_Conflict ''Resource conflict'' (Some ''duplicate key''))
         fresh_context = Inr c2 \<and> responds fresh_context c2 code obj
       \<and> obj ''meta'' = Some GoNil)
   \<and> \<not> nil_error (Call_Created (GoInt 7))
   \<and> (\<exists>c3 code obj. invoke_legacy (Call_Created (GoInt 7)) seeded_context = Inr c3
       \<and> responds seeded_context c3 code obj
       \<and> obj ''meta'' = Some (GoString ''2023-01-01T00:00:00Z''))"
proof -
  have n1: "\<not> nil_error (Call_InternalError ''boom'' (Some ''disk full''))" by simp
  have n2: "\<not> nil_error_ext (Ext_Conflict ''Resource conflict'' (Some ''duplicate key''))"
    by simp
  have n3: "Ext_Conflict ''Resource conflict'' (Some ''duplicate key'') \<noteq> Ext_NoContent"
    by simp
  have n4: "\<not> nil_error (Call_Created (GoInt 7))" by simp
  have k1: "Keys seeded_context ''meta'' = Some (GoString ''req-1'')"
    by (simp add: seeded_context_def)
  have k2: "Keys fresh_context ''meta'' = None"
    by (simp add: fresh_context_def)
  have k3: "clock seeded_context = ''2023-01-01T00:00:00Z''"
    by (simp add: seeded_context_def)
  have t1: "\<exists>c1 code obj. invoke (Call_InternalError ''boom'' (Some ''disk full''))
         seeded_context = Inr c1 \<and> responds seeded_context c1 code obj
       \<and> obj ''meta'' = Some (GoString ''req-1'')"
    using meta_passed_through [where k = "Call_InternalError ''boom'' (Some ''disk full'')"
      and c = seeded_context] n1 k1 by simp
  have t2: "\<exists>c2 code obj. invoke_ext (Ext_Conflict ''Resource conflict''
         (Some ''duplicate key'')) fresh_context = Inr c2 \<and> responds fresh_context c2 code obj
       \<and> obj ''meta'' = Some GoNil"
    using meta_passed_through [where x = "Ext_Conflict ''Resource conflict''
      (Some ''duplicate key'')" and c = fresh_context] n2 n3 k2 by simp
  have t3: "\<exists>c3 code obj. invoke_legacy (Call_Created (GoInt 7)) seeded_context = Inr c3
       \<and> responds seeded_context c3 code obj
       \<and> obj ''meta'' = Some (GoString ''2023-01-01T00:00:00Z'')"
    using meta_passed_through [where k = "Call_Created (GoInt 7)" and c = seeded_context]
      n4 k3 by simp
  show ?thesis using n1 n2 n3 n4 t1 t2 t3 by (intro conjI)
qed

section \<open>Determinism\<close>

lemma det_rh:
  assumes "Keys c ''meta'' = Keys d ''meta''" "invoke k c = Inr c'" "invoke k d = Inr d'"
  shows "\<exists>code body. wrote c c' code body \<and> wrote d d' code body"
  using assms
  by (cases k) (clarsimp simp: rh_defs prim_defs wrote_def split: option.splits)+

lemma det_ext:
  assumes "Keys c ''meta'' = Keys d ''meta''" "invoke_ext k c = Inr c'" "invoke_ext k d = Inr d'"
  shows "\<exists>code body. wrote c c' code body \<and> wrote d d' code body"
  using assms
  by (cases k) (clarsimp simp: ext_defs prim_defs wrote_def split: option.splits)+

lemma det_legacy:
  assumes "clock c = clock d" "invoke_legacy k c = Inr c'" "invoke_legacy k d = Inr d'"
  shows "\<exists>code body. wrote c c' code body \<and> wrote d d' code body"
  using assms
  by (cases k) (clarsimp simp: legacy_defs prim_defs wrote_def split: option.splits)+

lemma isl_rh: "isl (invoke k c) = isl (invoke k d)"
  by (cases k) (simp_all add: InternalError_def prim_defs split: option.splits prod.splits)

lemma isl_ext: "isl (invoke_ext k c) = isl (invoke_ext k d)"
  by (cases k) (simp_all add: InternalError_ext_def Conflict_ext_def AlreadyExists_ext_def
      prim_defs split: option.splits prod.splits)

lemma isl_legacy: "isl (invoke_legacy k c) = isl (invoke_legacy k d)"
  by (cases k) (simp_all add: InternalError_legacy_def prim_defs split: option.splits prod.splits)

text \<open>
  C10, as stated, fails on the legacy helper: two calls of \<^verbatim>\<open>Success\<close> with the same
  argument and the same value under the request's \<^verbatim>\<open>"meta"\<close> key, one second apart,
  write different bodies, since \<^verbatim>\<open>meta\<close> is the current time.
\<close>

theorem legacy_Success_depends_on_clock:
  "Keys later_context ''meta'' = Keys seeded_context ''meta''
   \<and> last_body (Success_legacy seeded_context (GoInt 7)) ''meta''
       = Some (GoString ''2023-01-01T00:00:00Z'')
   \<and> last_body (Success_legacy later_context (GoInt 7)) ''meta''
       = Some (GoString ''2023-01-01T00:00:01Z'')
   \<and> last_body (Success_legacy seeded_context (GoInt 7))
       \<noteq> last_body (Success_legacy later_context (GoInt 7))"
proof -
  have a: "last_body (Success_legacy seeded_context (GoInt 7)) ''meta''
       = Some (GoString ''2023-01-01T00:00:00Z'')"
    by (simp add: Success_legacy_def prim_defs last_body_def seeded_context_def)
  have b: "last_body (Success_legacy later_context (GoInt 7)) ''meta''
       = Some (GoString ''2023-01-01T00:00:01Z'')"
    by (simp add: Success_legacy_def prim_defs last_body_def seeded_context_def
          later_context_def)
  have "last_body (Success_legacy seeded_context (GoInt 7)) ''meta''
       \<noteq> last_body (Success_legacy later_context (GoInt 7)) ''meta''"
    unfolding a b by simp
  then have c: "last_body (Success_legacy seeded_context (GoInt 7))
       \<noteq> last_body (Success_legacy later_context (GoInt 7))"
    by metis
  have k: "Keys later_context ''meta'' = Keys seeded_context ''meta''"
    by (simp add: later_context_def)
  show ?thesis using a b c k by simp
qed

text \<open>
  C10, amended. In \<^verbatim>\<open>responsehelper.go\<close> and in the extended helper every operation is
  deterministic in its arguments and the value under the request's \<^verbatim>\<open>"meta"\<close> key: two
  returning calls of the same operation with equal arguments, in contexts that agree
  on that key and may differ in everything else (the clock included), write the same
  status and the same body (for a response sent without a body: both without one);
  and whether a call panics does not depend on the context. In the legacy helper
  every operation is deterministic in its arguments and the current time.
\<close>

theorem deterministic_in_inputs:
  "(Keys c ''meta'' = Keys d ''meta'' \<and> invoke k c = Inr c1 \<and> invoke k d = Inr d1
      \<longrightarrow> (\<exists>code body. wrote c c1 code body \<and> wrote d d1 code body))
   \<and> isl (invoke k c) = isl (invoke k d)
   \<and> (Keys c ''meta'' = Keys d ''meta'' \<and> invoke_ext k' c = Inr c2 \<and> invoke_ext k' d = Inr d2
      \<longrightarrow> (\<exists>code body. wrote c c2 code body \<and> wrote d d2 code body))
   \<and> isl (invoke_ext k' c) = isl (invoke_ext k' d)
   \<and> (clock c = clock d \<and> invoke_legacy k c = Inr c3 \<and> invoke_legacy k d = Inr d3
      \<longrightarrow> (\<exists>code body. wrote c c3 code body \<and> wrote d d3 code body))
   \<and> isl (invoke_legacy k c) = isl (invoke_legacy k d)"
  using det_rh [of c d k c1 d1] det_ext [of c d k' c2 d2] det_legacy [of c d k c3 d3]
    isl_rh [of k c d] isl_ext [of k' c d] isl_legacy [of k c d]
  by blast

theorem deterministic_in_inputs_witness:
  "Keys seeded_context ''meta'' = Keys later_context ''meta''
   \<and> clock seeded_context \<noteq> clock later_context
   \<and> invoke (Call_Success (GoInt 7)) seeded_context = Inr (Success seeded_context (GoInt 7))
   \<and> invoke (Call_Success (GoInt 7)) later_context = Inr (Success later_context (GoInt 7))
   \<and> (\<exists>code body. wrote seeded_context (Success seeded_context (GoInt 7)) code body
         \<and> wrote later_context (Success later_context (GoInt 7)) code body)
   \<and> invoke_ext (Ext_Deleted ''qualification'') seeded_context
        = Inr (Deleted_ext seeded_context ''qualification'')
   \<and> invoke_ext (Ext_Deleted ''qualification'') later_context
        = Inr (Deleted_ext later_context ''qualification'')
   \<and> (\<exists>code body. wrote seeded_context (Deleted_ext seeded_context ''qualification'') code body
         \<and> wrote later_context (Deleted_ext later_context ''qualification'') code body)
   \<and> clock seeded_context = clock fresh_context
   \<and> Keys seeded_context ''meta'' \<noteq> Keys fresh_context ''meta''
   \<and> invoke_legacy (Call_Success (GoInt 7)) seeded_context
        = Inr (Success_legacy seeded_context (GoInt 7))
   \<and> invoke_legacy (Call_Success (GoInt 7)) fresh_context
        = Inr (Success_legacy fresh_context (GoInt 7))
   \<and> (\<exists>code body. wrote seeded_context (Success_legacy seeded_context (GoInt 7)) code body
         \<and> wrote fresh_context (Success_legacy fresh_context (GoInt 7)) code body)"
proof -
  have k1: "Keys seeded_context ''meta'' = Keys later_context ''meta''"
    by (simp add: later_context_def)
  have k2: "clock seeded_context \<noteq> clock later_context"
    by (simp add: later_context_def seeded_context_def)
  have k3: "clock seeded_context = clock fresh_context"
    by (simp add: fresh_context_def seeded_context_def)
  have k4: "Keys seeded_context ''meta'' \<noteq> Keys fresh_context ''meta''"
    by (simp add: fresh_context_def seeded_context_def)
  have h1: "invoke (Call_Success (GoInt 7)) seeded_context
      = Inr (Success seeded_context (GoInt 7))" by simp
  have h2: "invoke (Call_Success (GoInt 7)) later_context
      = Inr (Success later_context (GoInt 7))" by simp
  have h3: "invoke_ext (Ext_Deleted ''qualification'') seeded_context
      = Inr (Deleted_ext seeded_context ''qualification'')" by simp
  have h4: "invoke_ext (Ext_Deleted ''qualification'') later_context
      = Inr (Deleted_ext later_context ''qualification'')" by simp
  have h5: "invoke_legacy (Call_Success (GoInt 7)) seeded_context
      = Inr (Success_legacy seeded_context (GoInt 7))" by simp
  have h6: "invoke_legacy (Call_Success (GoInt 7)) fresh_context
      = Inr (Success_legacy fresh_context (GoInt 7))" by simp
  have t1: "\<exists>code body. wrote seeded_context (Success seeded_context (GoInt 7)) code body
         \<and> wrote later_context (Success later_context (GoInt 7)) code body"
    using deterministic_in_inputs [of seeded_context later_context "Call_Success (GoInt 7)"
      "Success seeded_context (GoInt 7)" "Success later_context (GoInt 7)"] k1 h1 h2
    by blast
  have t2: "\<exists>code body. wrote seeded_context (Deleted_ext seeded_context ''qualification'')
           code body
         \<and> wrote later_context (Deleted_ext later_context ''qualification'') code body"
    using deterministic_in_inputs [of seeded_context later_context _ _ _
      "Ext_Deleted ''qualification''" "Deleted_ext seeded_context ''qualification''"
      "Deleted_ext later_context ''qualification''"] k1 h3 h4
    by blast
  have t3: "\<exists>code body. wrote seeded_context (Success_legacy seeded_context (GoInt 7))
           code body
         \<and> wrote fresh_context (Success_legacy fresh_context (GoInt 7)) code body"
    using deterministic_in_inputs [of seeded_context fresh_context "Call_Success (GoInt 7)"
      _ _ _ _ _ "Success_legacy seeded_context (GoInt 7)"
      "Success_legacy fresh_context (GoInt 7)"] k3 h5 h6
    by blast
  show ?thesis using k1 k2 k3 k4 h1 h2 h3 h4 h5 h6 t1 t2 t3 by (intro conjI)
qed

end
